theory Spec2Isabelle
  imports Complex_Main
begin

section \<open>JSON documents and the Python operations the server applies to them\<close>

text \<open>
  The server (\<^verbatim>\<open>src/mcp-servers/meta-whatsapp/server.py\<close>) handles tool arguments and
  remote responses as parsed JSON. A Python \<^verbatim>\<open>dict\<close> keeps insertion order, so an object
  is an association list; lookups go through \<open>map_of\<close>. A \<^verbatim>\<open>float\<close> is the rational
  number it stands for (the server does no arithmetic on one; NaN and the infinities, which
  are not JSON, have no counterpart). A string is the list of its characters.
\<close>

datatype json =
    JNull
  | JBool bool
  | JInt int
  | JFloat rat
  | JStr string
  | JList "json list"
  | JObj "(string \<times> json) list"

type_synonym jobj = "(string \<times> json) list"

text \<open>Exceptions are values; \<open>Inl\<close> of a sum is a raise.\<close>

datatype error =
    KeyError json
  | IndexError
  | TypeError
  | AttributeError
  | ValueError string
  | TransportError

text \<open>
  Text built by f-strings is a sequence of fragments: literal characters, and the renderings
  that Python's library produces (\<^verbatim>\<open>str\<close>, \<^verbatim>\<open>json.dumps\<close> with the three argument
  combinations the server uses, \<^verbatim>\<open>str(e)\<close> and \<^verbatim>\<open>traceback.format_exc()\<close>), kept
  symbolic because the library is not part of the repository.
\<close>

datatype frag =
    Lit string
  | Str json
  | Dumps json
  | DumpsIndent json
  | DumpsIndentUnicode json
  | ExcStr error
  | FormatExc error

type_synonym pytext = "frag list"

definition nl :: string where
  "nl = [CHR 0x0A]"

definition and_then :: "error + 'a \<Rightarrow> ('a \<Rightarrow> error + 'b) \<Rightarrow> error + 'b" where
  "and_then m f = (case m of Inl e \<Rightarrow> Inl e | Inr x \<Rightarrow> f x)"

text \<open>\<^verbatim>\<open>str(v)\<close> inside an f-string: a \<^verbatim>\<open>str\<close> is inserted as it is.\<close>

definition py_str :: "json \<Rightarrow> frag" where
  "py_str v = (case v of JStr s \<Rightarrow> Lit s | _ \<Rightarrow> Str v)"

text \<open>Truth value of a Python object, as \<^verbatim>\<open>if x:\<close> tests it.\<close>

fun py_truthy :: "json \<Rightarrow> bool" where
  "py_truthy JNull = False"
| "py_truthy (JBool b) = b"
| "py_truthy (JInt i) = (i \<noteq> 0)"
| "py_truthy (JFloat r) = (r \<noteq> 0)"
| "py_truthy (JStr s) = (s \<noteq> [])"
| "py_truthy (JList xs) = (xs \<noteq> [])"
| "py_truthy (JObj d) = (d \<noteq> [])"

text \<open>
  Python's \<^verbatim>\<open>==\<close> on JSON values: numbers compare by value across \<^verbatim>\<open>bool\<close>,
  \<^verbatim>\<open>int\<close> and \<^verbatim>\<open>float\<close> (\<^verbatim>\<open>True == 1 == 1.0\<close>), and dictionaries compare without
  regard to key order.
\<close>

fun py_eq :: "json \<Rightarrow> json \<Rightarrow> bool" where
  "py_eq JNull JNull = True"
| "py_eq (JBool a) (JBool b) = (a = b)"
| "py_eq (JBool a) (JInt j) = ((if a then 1 else 0) = j)"
| "py_eq (JInt i) (JBool b) = (i = (if b then 1 else 0))"
| "py_eq (JInt i) (JInt j) = (i = j)"
| "py_eq (JBool a) (JFloat r) = ((if a then 1 else 0) = r)"
| "py_eq (JFloat r) (JBool b) = (r = (if b then 1 else 0))"
| "py_eq (JInt i) (JFloat r) = (of_int i = r)"
| "py_eq (JFloat r) (JInt j) = (r = of_int j)"
| "py_eq (JFloat r) (JFloat q) = (r = q)"
| "py_eq (JStr s) (JStr t) = (s = t)"
| "py_eq (JList xs) (JList ys) = list_all2 py_eq xs ys"
| "py_eq (JObj d) (JObj e) =
     (length d = length e \<and>
      list_all (\<lambda>(k, v). case map_of e k of None \<Rightarrow> False | Some w \<Rightarrow> py_eq v w) d)"
| "py_eq _ _ = False"

text \<open>\<^verbatim>\<open>d.get(k)\<close>, \<^verbatim>\<open>d.get(k, default)\<close>, \<^verbatim>\<open>d[k]\<close> and \<^verbatim>\<open>k in d\<close> on a dict.\<close>

definition dict_get :: "jobj \<Rightarrow> string \<Rightarrow> json" where
  "dict_get d k = (case map_of d k of None \<Rightarrow> JNull | Some v \<Rightarrow> v)"

definition dict_get_default :: "jobj \<Rightarrow> string \<Rightarrow> json \<Rightarrow> json" where
  "dict_get_default d k dflt = (case map_of d k of None \<Rightarrow> dflt | Some v \<Rightarrow> v)"

definition dict_getitem :: "jobj \<Rightarrow> string \<Rightarrow> error + json" where
  "dict_getitem d k = (case map_of d k of None \<Rightarrow> Inl (KeyError (JStr k)) | Some v \<Rightarrow> Inr v)"

definition dict_contains :: "jobj \<Rightarrow> string \<Rightarrow> bool" where
  "dict_contains d k = (map_of d k \<noteq> None)"

text \<open>
  The same operations on a value whose type is not known to be a dict: \<^verbatim>\<open>v.get\<close> exists
  on a dict only, and \<^verbatim>\<open>v['key']\<close> is a TypeError on every other JSON value.
\<close>

definition py_get :: "json \<Rightarrow> string \<Rightarrow> error + json" where
  "py_get v k = (case v of JObj d \<Rightarrow> Inr (dict_get d k) | _ \<Rightarrow> Inl AttributeError)"

definition py_get_default :: "json \<Rightarrow> string \<Rightarrow> json \<Rightarrow> error + json" where
  "py_get_default v k dflt =
     (case v of JObj d \<Rightarrow> Inr (dict_get_default d k dflt) | _ \<Rightarrow> Inl AttributeError)"

definition py_getitem :: "json \<Rightarrow> string \<Rightarrow> error + json" where
  "py_getitem v k = (case v of JObj d \<Rightarrow> dict_getitem d k | _ \<Rightarrow> Inl TypeError)"

text \<open>\<^verbatim>\<open>v[0]\<close>: the keys of a parsed JSON object are strings, so \<^verbatim>\<open>0\<close> is never one.\<close>

definition py_index0 :: "json \<Rightarrow> error + json" where
  "py_index0 v =
     (case v of
        JList xs \<Rightarrow> (case xs of [] \<Rightarrow> Inl IndexError | x # _ \<Rightarrow> Inr x)
      | JStr s \<Rightarrow> (case s of [] \<Rightarrow> Inl IndexError | c # _ \<Rightarrow> Inr (JStr [c]))
      | JObj d \<Rightarrow> Inl (KeyError (JInt 0))
      | _ \<Rightarrow> Inl TypeError)"

text \<open>
  \<^verbatim>\<open>for x in v\<close>: a list yields its elements, a string its characters, a dict its keys;
  nothing else is iterable.
\<close>

definition py_iter :: "json \<Rightarrow> error + json list" where
  "py_iter v =
     (case v of
        JList xs \<Rightarrow> Inr xs
      | JStr s \<Rightarrow> Inr (map (\<lambda>c. JStr [c]) s)
      | JObj d \<Rightarrow> Inr (map (\<lambda>kv. JStr (fst kv)) d)
      | _ \<Rightarrow> Inl TypeError)"

definition py_len :: "json \<Rightarrow> error + nat" where
  "py_len v =
     (case v of
        JList xs \<Rightarrow> Inr (length xs)
      | JStr s \<Rightarrow> Inr (length s)
      | JObj d \<Rightarrow> Inr (length d)
      | _ \<Rightarrow> Inl TypeError)"

text \<open>A loop body that may raise, run over a list: the first exception ends the loop.\<close>

primrec map_err :: "('a \<Rightarrow> error + 'b) \<Rightarrow> 'a list \<Rightarrow> error + 'b list" where
  "map_err f [] = Inr []"
| "map_err f (x # xs) =
     (case f x of
        Inl e \<Rightarrow> Inl e
      | Inr y \<Rightarrow> (case map_err f xs of Inl e \<Rightarrow> Inl e | Inr ys \<Rightarrow> Inr (y # ys)))"

text \<open>A list comprehension \<^verbatim>\<open>[t for t in ts if p(t)]\<close> whose condition may raise.\<close>

primrec filter_err :: "('a \<Rightarrow> error + bool) \<Rightarrow> 'a list \<Rightarrow> error + 'a list" where
  "filter_err p [] = Inr []"
| "filter_err p (x # xs) =
     (case p x of
        Inl e \<Rightarrow> Inl e
      | Inr b \<Rightarrow>
          (case filter_err p xs of
             Inl e \<Rightarrow> Inl e
           | Inr ys \<Rightarrow> Inr (if b then x # ys else ys)))"

section \<open>Configuration and the remote API client\<close>

record config =
  META_ACCESS_TOKEN :: string
  WABA_ID :: string
  PHONE_NUMBER_ID :: string

definition API_VERSION :: string where
  "API_VERSION = ''v24.0''"

definition BASE_URL :: string where
  "BASE_URL = ''https://graph.facebook.com/'' @ API_VERSION"

text \<open>
  What \<^verbatim>\<open>httpx\<close> is asked to send: \<open>params\<close> is the \<^verbatim>\<open>params=\<close> keyword (the query
  string), \<open>json_body\<close> the \<^verbatim>\<open>json=\<close> keyword; \<open>None\<close> when the keyword is not passed
  or is passed \<^verbatim>\<open>None\<close>.
\<close>

record request =
  http_method :: string
  url :: pytext
  headers :: "(string \<times> string) list"
  params :: "jobj option"
  json_body :: "jobj option"

text \<open>
  The remote platform: the parsed body of its answer, or a transport fault (connection
  error, body that is not JSON). \<^verbatim>\<open>make_request\<close> is annotated to return a dict.
\<close>

type_synonym remote = "request \<Rightarrow> error + jobj"

text \<open>
  \<^verbatim>\<open>make_request\<close> (lines 44-62). The result is paired with the requests that were
  handed to the HTTP client.
\<close>

definition make_request ::
  "config \<Rightarrow> remote \<Rightarrow> string \<Rightarrow> pytext \<Rightarrow> jobj option \<Rightarrow> (error + jobj) \<times> request list" where
  "make_request cfg http meth endpoint data =
     (let u = [Lit BASE_URL, Lit ''/''] @ endpoint;
          hs = [(''Authorization'', ''Bearer '' @ META_ACCESS_TOKEN cfg),
                (''Content-Type'', ''application/json'')]
      in if meth = ''GET'' then
           (let rq = \<lparr>http_method = ''GET'', url = u, headers = hs, params = data, json_body = None\<rparr>
            in (http rq, [rq]))
         else if meth = ''POST'' then
           (let rq = \<lparr>http_method = ''POST'', url = u, headers = hs, params = None, json_body = data\<rparr>
            in (http rq, [rq]))
         else if meth = ''DELETE'' then
           (let rq = \<lparr>http_method = ''DELETE'', url = u, headers = hs, params = None, json_body = None\<rparr>
            in (http rq, [rq]))
         else (Inl (ValueError meth), []))"

text \<open>Continue with the response of a request, keeping the record of what was sent.\<close>

definition on_response ::
  "(error + jobj) \<times> request list \<Rightarrow> (jobj \<Rightarrow> error + 'a) \<Rightarrow> (error + 'a) \<times> request list" where
  "on_response r f = (and_then (fst r) f, snd r)"

definition before_request ::
  "error + 'a \<Rightarrow> ('a \<Rightarrow> (error + 'b) \<times> request list) \<Rightarrow> (error + 'b) \<times> request list" where
  "before_request m f = (case m of Inl e \<Rightarrow> (Inl e, []) | Inr x \<Rightarrow> f x)"

section \<open>The tool catalog\<close>

text \<open>
  \<^verbatim>\<open>list_tools\<close> (lines 65-250): of each tool the name and the \<^verbatim>\<open>required\<close> keys of
  its input schema, in the order of the source; descriptions and property types are left out.
\<close>

record Tool =
  tool_name :: string
  tool_required :: "string list"

definition list_tools :: "Tool list" where
  "list_tools =
     [\<lparr>tool_name = ''list_templates'', tool_required = []\<rparr>,
      \<lparr>tool_name = ''get_template'', tool_required = []\<rparr>,
      \<lparr>tool_name = ''create_template'',
       tool_required = [''name'', ''category'', ''body_text'', ''body_examples'']\<rparr>,
      \<lparr>tool_name = ''delete_template'', tool_required = [''template_name'']\<rparr>,
      \<lparr>tool_name = ''get_account_info'', tool_required = []\<rparr>,
      \<lparr>tool_name = ''get_phone_numbers'', tool_required = []\<rparr>,
      \<lparr>tool_name = ''send_template_message'',
       tool_required = [''to'', ''template_name'', ''body_parameters'']\<rparr>,
      \<lparr>tool_name = ''send_text_message'', tool_required = [''to'', ''message'']\<rparr>,
      \<lparr>tool_name = ''get_analytics'', tool_required = []\<rparr>]"

datatype TextContent = TextContent string pytext

section \<open>The branches of \<^verbatim>\<open>call_tool\<close>\<close>

subsection \<open>\<^verbatim>\<open>list_templates\<close> (lines 257-275)\<close>

text \<open>
  Lines 263-264 and 265-266 are the same statement for the keys \<^verbatim>\<open>status\<close> and
  \<^verbatim>\<open>category\<close>: when the argument is truthy, keep the entries whose field is equal to it.
\<close>

definition filter_by :: "jobj \<Rightarrow> string \<Rightarrow> json \<Rightarrow> error + json" where
  "filter_by arguments key templates =
     (if py_truthy (dict_get arguments key) then
        and_then (py_iter templates) (\<lambda>ts.
        and_then (filter_err (\<lambda>t.
                    and_then (py_get t key) (\<lambda>v.
                    and_then (dict_getitem arguments key) (\<lambda>a.
                    Inr (py_eq v a)))) ts) (\<lambda>kept.
        Inr (JList kept)))
      else Inr templates)"

definition filter_templates :: "jobj \<Rightarrow> json \<Rightarrow> error + json" where
  "filter_templates arguments templates =
     and_then (filter_by arguments ''status'' templates) (\<lambda>templates1.
     filter_by arguments ''category'' templates1)"

text \<open>Line 272: one table row.\<close>

definition template_row :: "json \<Rightarrow> error + pytext" where
  "template_row t =
     and_then (py_getitem t ''name'') (\<lambda>n.
     and_then (py_get_default t ''category'' (JStr ''N/A'')) (\<lambda>c.
     and_then (py_get_default t ''status'' (JStr ''N/A'')) (\<lambda>s.
     and_then (py_get_default t ''language'' (JStr ''N/A'')) (\<lambda>l.
     Inr [Lit ''| '', py_str n, Lit '' | '', py_str c, Lit '' | '', py_str s,
          Lit '' | '', py_str l, Lit ('' |'' @ nl)]))))"

text \<open>Lines 268-274: the table of the templates that are left, and their count.\<close>

definition render_templates :: "json \<Rightarrow> error + TextContent list" where
  "render_templates templates =
     and_then (py_iter templates) (\<lambda>ts.
     and_then (map_err template_row ts) (\<lambda>rows.
     and_then (py_len templates) (\<lambda>n.
     Inr [TextContent ''text''
            ([Lit (''## WhatsApp Templates'' @ nl @ nl),
              Lit (''| Name | Category | Status | Language |'' @ nl),
              Lit (''|------|----------|--------|----------|'' @ nl)]
             @ concat rows
             @ [Lit (nl @ ''**Total: ''), Str (JInt (int n)), Lit '' templates**''])])))"

definition format_list_templates :: "jobj \<Rightarrow> jobj \<Rightarrow> error + TextContent list" where
  "format_list_templates arguments result =
     (if dict_contains result ''data'' then
        and_then (dict_getitem result ''data'') (\<lambda>templates0.
        and_then (filter_templates arguments templates0) (\<lambda>templates.
        render_templates templates))
      else Inr [TextContent ''text'' [Lit ''Error: '', Dumps (JObj result)]])"

definition list_templates_tool ::
  "config \<Rightarrow> remote \<Rightarrow> jobj \<Rightarrow> (error + TextContent list) \<times> request list" where
  "list_templates_tool cfg http arguments =
     on_response
       (make_request cfg http ''GET'' [Lit (WABA_ID cfg @ ''/message_templates'')]
          (Some [(''fields'', JStr ''name,status,category,language,components,quality_score''),
                 (''limit'', JInt 50)]))
       (format_list_templates arguments)"

subsection \<open>\<^verbatim>\<open>get_template\<close> (lines 277-286)\<close>

definition first_match :: "jobj \<Rightarrow> error + json" where
  "first_match result =
     (if dict_contains result ''data'' \<and> py_truthy (dict_get result ''data'') then
        and_then (dict_getitem result ''data'') py_index0
      else Inr (JObj result))"

definition get_template_tool ::
  "config \<Rightarrow> remote \<Rightarrow> jobj \<Rightarrow> (error + TextContent list) \<times> request list" where
  "get_template_tool cfg http arguments =
     (if py_truthy (dict_get arguments ''template_id'') then
        before_request (dict_getitem arguments ''template_id'') (\<lambda>tid.
        on_response
          (make_request cfg http ''GET'' [py_str tid]
             (Some [(''fields'', JStr ''name,status,category,language,components,quality_score'')]))
          (\<lambda>result. Inr [TextContent ''text'' [DumpsIndentUnicode (JObj result)]]))
      else
        on_response
          (make_request cfg http ''GET'' [Lit (WABA_ID cfg @ ''/message_templates'')]
             (Some [(''fields'', JStr ''name,status,category,language,components''),
                    (''name'', dict_get arguments ''template_name'')]))
          (\<lambda>result.
             and_then (first_match result) (\<lambda>result1.
             Inr [TextContent ''text'' [DumpsIndentUnicode result1]])))"

subsection \<open>\<^verbatim>\<open>create_template\<close> (lines 288-353)\<close>

text \<open>Lines 318-328, the body of the loop over the buttons: what one button appends.\<close>

definition button_entries :: "json \<Rightarrow> error + json list" where
  "button_entries btn =
     and_then (py_getitem btn ''type'') (\<lambda>ty.
     if py_eq ty (JStr ''QUICK_REPLY'') then
       and_then (py_getitem btn ''text'') (\<lambda>txt.
       Inr [JObj [(''type'', JStr ''QUICK_REPLY''), (''text'', txt)]])
     else if py_eq ty (JStr ''URL'') then
       and_then (py_getitem btn ''text'') (\<lambda>txt.
       and_then (py_getitem btn ''url'') (\<lambda>u.
       Inr [JObj [(''type'', JStr ''URL''), (''text'', txt), (''url'', u)]]))
     else Inr [])"

text \<open>Lines 291-329: the components list.\<close>

definition header_component :: "jobj \<Rightarrow> error + json list" where
  "header_component arguments =
     (if py_truthy (dict_get arguments ''header_text'') then
        and_then (dict_getitem arguments ''header_text'') (\<lambda>h.
        Inr [JObj [(''type'', JStr ''HEADER''), (''format'', JStr ''TEXT''), (''text'', h)]])
      else Inr [])"

definition body_component :: "jobj \<Rightarrow> error + json list" where
  "body_component arguments =
     and_then (dict_getitem arguments ''body_text'') (\<lambda>bt.
     and_then (dict_getitem arguments ''body_examples'') (\<lambda>ex.
     Inr [JObj [(''type'', JStr ''BODY''), (''text'', bt),
                (''example'', JObj [(''body_text'', JList [ex])])]]))"

definition footer_component :: "jobj \<Rightarrow> error + json list" where
  "footer_component arguments =
     (if py_truthy (dict_get arguments ''footer_text'') then
        and_then (dict_getitem arguments ''footer_text'') (\<lambda>f.
        Inr [JObj [(''type'', JStr ''FOOTER''), (''text'', f)]])
      else Inr [])"

definition button_component :: "jobj \<Rightarrow> error + json list" where
  "button_component arguments =
     (if py_truthy (dict_get arguments ''buttons'') then
        and_then (dict_getitem arguments ''buttons'') (\<lambda>bs.
        and_then (py_iter bs) (\<lambda>btns.
        and_then (map_err button_entries btns) (\<lambda>entries.
        Inr [JObj [(''type'', JStr ''BUTTONS''), (''buttons'', JList (concat entries))]])))
      else Inr [])"

definition create_components :: "jobj \<Rightarrow> error + json list" where
  "create_components arguments =
     and_then (header_component arguments) (\<lambda>h.
     and_then (body_component arguments) (\<lambda>b.
     and_then (footer_component arguments) (\<lambda>f.
     and_then (button_component arguments) (\<lambda>bt.
     Inr (h @ b @ f @ bt)))))"

text \<open>Lines 331-336.\<close>

definition create_payload :: "jobj \<Rightarrow> error + jobj" where
  "create_payload arguments =
     and_then (create_components arguments) (\<lambda>components.
     and_then (dict_getitem arguments ''name'') (\<lambda>n.
     and_then (dict_getitem arguments ''category'') (\<lambda>c.
     Inr [(''name'', n), (''category'', c),
          (''language'', dict_get_default arguments ''language'' (JStr ''es_CL'')),
          (''components'', JList components)])))"

text \<open>Lines 342-349.\<close>

definition format_create_template :: "jobj \<Rightarrow> jobj \<Rightarrow> error + TextContent list" where
  "format_create_template arguments result =
     (if dict_contains result ''id'' then
        and_then (dict_getitem result ''id'') (\<lambda>i.
        and_then (dict_getitem arguments ''category'') (\<lambda>c.
        Inr [TextContent ''text''
               [Lit (''Template created successfully!'' @ nl @ nl @ ''- **ID**: ''), py_str i,
                Lit (nl @ ''- **Status**: ''),
                py_str (dict_get_default result ''status'' (JStr ''PENDING'')),
                Lit (nl @ ''- **Category**: ''),
                py_str (dict_get_default result ''category'' c)]]))
      else Inr [TextContent ''text'' [Lit ''Error creating template: '', DumpsIndent (JObj result)]])"

text \<open>
  The whole branch runs inside \<^verbatim>\<open>try\<close>; \<^verbatim>\<open>except Exception\<close> (lines 350-353) turns
  every exception into a text. The calls of \<^verbatim>\<open>log\<close> write to stderr and are left out.
\<close>

definition create_template_tool ::
  "config \<Rightarrow> remote \<Rightarrow> jobj \<Rightarrow> (error + TextContent list) \<times> request list" where
  "create_template_tool cfg http arguments =
     (let r = before_request (create_payload arguments) (\<lambda>payload.
                on_response
                  (make_request cfg http ''POST'' [Lit (WABA_ID cfg @ ''/message_templates'')]
                     (Some payload))
                  (format_create_template arguments))
      in (case fst r of
            Inl e \<Rightarrow>
              Inr [TextContent ''text''
                     [Lit ''Exception creating template: '', ExcStr e, Lit nl, FormatExc e]]
          | Inr out \<Rightarrow> Inr out,
          snd r))"

subsection \<open>\<^verbatim>\<open>delete_template\<close> (lines 355-360)\<close>

definition format_delete_template :: "jobj \<Rightarrow> jobj \<Rightarrow> error + TextContent list" where
  "format_delete_template arguments result =
     (if py_truthy (dict_get result ''success'') then
        and_then (dict_getitem arguments ''template_name'') (\<lambda>n.
        Inr [TextContent ''text''
               [Lit (''Template '' @ [CHR 0x27]), py_str n,
                Lit ([CHR 0x27] @ '' deleted successfully'')]])
      else Inr [TextContent ''text'' [Lit ''Error: '', Dumps (JObj result)]])"

definition delete_template_tool ::
  "config \<Rightarrow> remote \<Rightarrow> jobj \<Rightarrow> (error + TextContent list) \<times> request list" where
  "delete_template_tool cfg http arguments =
     before_request (dict_getitem arguments ''template_name'') (\<lambda>n.
     on_response
       (make_request cfg http ''DELETE'' [Lit (WABA_ID cfg @ ''/message_templates'')]
          (Some [(''name'', n)]))
       (format_delete_template arguments))"

subsection \<open>\<^verbatim>\<open>get_account_info\<close> (lines 362-365)\<close>

definition get_account_info_tool ::
  "config \<Rightarrow> remote \<Rightarrow> jobj \<Rightarrow> (error + TextContent list) \<times> request list" where
  "get_account_info_tool cfg http arguments =
     on_response
       (make_request cfg http ''GET'' [Lit (WABA_ID cfg)]
          (Some [(''fields'', JStr (''id,name,currency,timezone_id,message_template_namespace,''
                                    @ ''account_review_status,business_verification_status''))]))
       (\<lambda>result.
          Inr [TextContent ''text''
                 [Lit (''## WABA Account Info'' @ nl @ nl @ ''```json'' @ nl),
                  DumpsIndent (JObj result), Lit (nl @ ''```'')]])"

subsection \<open>\<^verbatim>\<open>get_phone_numbers\<close> (lines 367-378)\<close>

definition phone_entry :: "json \<Rightarrow> error + pytext" where
  "phone_entry phone =
     and_then (py_get phone ''display_phone_number'') (\<lambda>d.
     and_then (py_get phone ''verified_name'') (\<lambda>v.
     and_then (py_get_default phone ''quality_rating'' (JStr ''N/A'')) (\<lambda>q.
     and_then (py_get_default phone ''messaging_limit_tier'' (JStr ''N/A'')) (\<lambda>l.
     and_then (py_get phone ''id'') (\<lambda>i.
     Inr [Lit ''- **'', py_str d, Lit ''** ('', py_str v, Lit ('')'' @ nl),
          Lit ''  - Quality: '', py_str q, Lit nl,
          Lit ''  - Limit: '', py_str l, Lit nl,
          Lit ''  - ID: '', py_str i, Lit (nl @ nl)])))))"

definition format_phone_numbers :: "jobj \<Rightarrow> error + TextContent list" where
  "format_phone_numbers result =
     (if dict_contains result ''data'' then
        and_then (dict_getitem result ''data'') (\<lambda>d.
        and_then (py_iter d) (\<lambda>phones.
        and_then (map_err phone_entry phones) (\<lambda>entries.
        Inr [TextContent ''text''
               (Lit (''## Phone Numbers'' @ nl @ nl) # concat entries)])))
      else Inr [TextContent ''text'' [Lit ''Error: '', Dumps (JObj result)]])"

definition get_phone_numbers_tool ::
  "config \<Rightarrow> remote \<Rightarrow> jobj \<Rightarrow> (error + TextContent list) \<times> request list" where
  "get_phone_numbers_tool cfg http arguments =
     on_response
       (make_request cfg http ''GET'' [Lit (WABA_ID cfg @ ''/phone_numbers'')]
          (Some [(''fields'', JStr (''id,display_phone_number,verified_name,quality_rating,''
                                    @ ''messaging_limit_tier,status''))]))
       format_phone_numbers"

subsection \<open>\<^verbatim>\<open>send_template_message\<close> (lines 380-412)\<close>

text \<open>Lines 386 and 392: the list comprehension wrapping each parameter.\<close>

definition text_parameters :: "json \<Rightarrow> error + json list" where
  "text_parameters ps =
     and_then (py_iter ps) (\<lambda>xs.
     Inr (map (\<lambda>p. JObj [(''type'', JStr ''text''), (''text'', p)]) xs))"

text \<open>Lines 383-387 and 389-393 are the same statement for the header and for the body.\<close>

definition parameter_component :: "jobj \<Rightarrow> string \<Rightarrow> string \<Rightarrow> error + json list" where
  "parameter_component arguments key ty =
     (if py_truthy (dict_get arguments key) then
        and_then (dict_getitem arguments key) (\<lambda>ps.
        and_then (text_parameters ps) (\<lambda>wrapped.
        Inr [JObj [(''type'', JStr ty), (''parameters'', JList wrapped)]]))
      else Inr [])"

definition send_components :: "jobj \<Rightarrow> error + json list" where
  "send_components arguments =
     and_then (parameter_component arguments ''header_parameters'' ''header'') (\<lambda>h.
     and_then (parameter_component arguments ''body_parameters'' ''body'') (\<lambda>b.
     Inr (h @ b)))"

definition send_template_payload :: "jobj \<Rightarrow> error + jobj" where
  "send_template_payload arguments =
     and_then (send_components arguments) (\<lambda>components.
     and_then (dict_getitem arguments ''to'') (\<lambda>t.
     and_then (dict_getitem arguments ''template_name'') (\<lambda>n.
     Inr [(''messaging_product'', JStr ''whatsapp''),
          (''recipient_type'', JStr ''individual''),
          (''to'', t),
          (''type'', JStr ''template''),
          (''template'',
             JObj [(''name'', n),
                   (''language'',
                      JObj [(''code'', dict_get_default arguments ''language'' (JStr ''es_CL''))]),
                   (''components'', JList components)])])))"

text \<open>
  Lines 409-412 and 427-430 differ in the first words of the success text only, which are
  the parameter \<open>ok\<close>.
\<close>

definition format_sent :: "string \<Rightarrow> jobj \<Rightarrow> jobj \<Rightarrow> error + TextContent list" where
  "format_sent ok arguments result =
     (if dict_contains result ''messages'' then
        and_then (dict_getitem result ''messages'') (\<lambda>ms.
        and_then (py_index0 ms) (\<lambda>m.
        and_then (py_getitem m ''id'') (\<lambda>msg_id.
        and_then (dict_getitem arguments ''to'') (\<lambda>t.
        Inr [TextContent ''text''
               [Lit (ok @ nl @ nl @ ''- **Message ID**: ''), py_str msg_id,
                Lit (nl @ ''- **To**: ''), py_str t]]))))
      else Inr [TextContent ''text'' [Lit ''Error sending message: '', DumpsIndent (JObj result)]])"

definition send_template_message_tool ::
  "config \<Rightarrow> remote \<Rightarrow> jobj \<Rightarrow> (error + TextContent list) \<times> request list" where
  "send_template_message_tool cfg http arguments =
     before_request (send_template_payload arguments) (\<lambda>payload.
     on_response
       (make_request cfg http ''POST'' [Lit (PHONE_NUMBER_ID cfg @ ''/messages'')] (Some payload))
       (format_sent ''Message sent successfully!'' arguments))"

subsection \<open>\<^verbatim>\<open>send_text_message\<close> (lines 414-430)\<close>

definition send_text_payload :: "jobj \<Rightarrow> error + jobj" where
  "send_text_payload arguments =
     and_then (dict_getitem arguments ''to'') (\<lambda>t.
     and_then (dict_getitem arguments ''message'') (\<lambda>m.
     Inr [(''messaging_product'', JStr ''whatsapp''),
          (''recipient_type'', JStr ''individual''),
          (''to'', t),
          (''type'', JStr ''text''),
          (''text'', JObj [(''body'', m)])]))"

definition send_text_message_tool ::
  "config \<Rightarrow> remote \<Rightarrow> jobj \<Rightarrow> (error + TextContent list) \<times> request list" where
  "send_text_message_tool cfg http arguments =
     before_request (send_text_payload arguments) (\<lambda>payload.
     on_response
       (make_request cfg http ''POST'' [Lit (PHONE_NUMBER_ID cfg @ ''/messages'')] (Some payload))
       (format_sent ''Text message sent!'' arguments))"

subsection \<open>\<^verbatim>\<open>get_analytics\<close> (lines 432-442)\<close>

definition analytics_params :: "jobj \<Rightarrow> error + jobj" where
  "analytics_params arguments =
     and_then (if py_truthy (dict_get arguments ''start_date'')
               then and_then (dict_getitem arguments ''start_date'') (\<lambda>s. Inr [(''start'', s)])
               else Inr []) (\<lambda>start_kv.
     and_then (if py_truthy (dict_get arguments ''end_date'')
               then and_then (dict_getitem arguments ''end_date'') (\<lambda>e. Inr [(''end'', e)])
               else Inr []) (\<lambda>end_kv.
     Inr ([(''fields'',
            JStr (''conversation_analytics.start(start_date).end(end_date)''
                  @ ''.granularity(DAILY).dimensions(conversation_type,conversation_direction)''))]
          @ start_kv @ end_kv)))"

definition get_analytics_tool ::
  "config \<Rightarrow> remote \<Rightarrow> jobj \<Rightarrow> (error + TextContent list) \<times> request list" where
  "get_analytics_tool cfg http arguments =
     before_request (analytics_params arguments) (\<lambda>ps.
     on_response
       (make_request cfg http ''GET'' [Lit (WABA_ID cfg)] (Some ps))
       (\<lambda>result.
          Inr [TextContent ''text''
                 [Lit (''## Analytics'' @ nl @ nl @ ''```json'' @ nl),
                  DumpsIndent (JObj result), Lit (nl @ ''```'')]]))"

section \<open>The dispatcher and the resources\<close>

text \<open>\<^verbatim>\<open>call_tool\<close> (lines 253-444): the chain of comparisons of the name.\<close>

definition call_tool ::
  "config \<Rightarrow> remote \<Rightarrow> string \<Rightarrow> jobj \<Rightarrow> (error + TextContent list) \<times> request list" where
  "call_tool cfg http name arguments =
     (if name = ''list_templates'' then list_templates_tool cfg http arguments
      else if name = ''get_template'' then get_template_tool cfg http arguments
      else if name = ''create_template'' then create_template_tool cfg http arguments
      else if name = ''delete_template'' then delete_template_tool cfg http arguments
      else if name = ''get_account_info'' then get_account_info_tool cfg http arguments
      else if name = ''get_phone_numbers'' then get_phone_numbers_tool cfg http arguments
      else if name = ''send_template_message'' then send_template_message_tool cfg http arguments
      else if name = ''send_text_message'' then send_text_message_tool cfg http arguments
      else if name = ''get_analytics'' then get_analytics_tool cfg http arguments
      else (Inr [TextContent ''text'' [Lit ''Unknown tool: '', Lit name]], []))"

text \<open>\<^verbatim>\<open>read_resource\<close> (lines 466-477).\<close>

definition read_resource :: "config \<Rightarrow> remote \<Rightarrow> string \<Rightarrow> (error + pytext) \<times> request list" where
  "read_resource cfg http uri =
     (if uri = ''whatsapp://templates'' then
        on_response
          (make_request cfg http ''GET'' [Lit (WABA_ID cfg @ ''/message_templates'')]
             (Some [(''fields'', JStr ''name,status,category,language,components''),
                    (''limit'', JInt 50)]))
          (\<lambda>result. Inr [DumpsIndentUnicode (JObj result)])
      else if uri = ''whatsapp://account'' then
        on_response
          (make_request cfg http ''GET'' [Lit (WABA_ID cfg)]
             (Some [(''fields'',
                     JStr ''id,name,currency,timezone_id,message_template_namespace'')]))
          (\<lambda>result. Inr [DumpsIndentUnicode (JObj result)])
      else (Inr [Lit ''{}''], []))"

section \<open>Vocabulary of the properties\<close>

text \<open>
  A button that the loop of lines 317-328 can convert: an object with a \<^verbatim>\<open>type\<close>, which
  has a \<^verbatim>\<open>text\<close> when the type is \<^verbatim>\<open>QUICK_REPLY\<close>, and a \<^verbatim>\<open>text\<close> and a
  \<^verbatim>\<open>url\<close> when it is \<^verbatim>\<open>URL\<close>.
\<close>

definition valid_button :: "json \<Rightarrow> bool" where
  "valid_button btn =
     (case btn of
        JObj d \<Rightarrow>
          (case map_of d ''type'' of
             None \<Rightarrow> False
           | Some ty \<Rightarrow>
               if ty = JStr ''QUICK_REPLY'' then map_of d ''text'' \<noteq> None
               else if ty = JStr ''URL'' then map_of d ''text'' \<noteq> None \<and> map_of d ''url'' \<noteq> None
               else True)
      | _ \<Rightarrow> False)"

text \<open>
  The mapping of one button in the words of the specification (4.2): a \<^verbatim>\<open>QUICK_REPLY\<close>
  keeps its text, a \<^verbatim>\<open>URL\<close> its text and its target, a button of any other type is
  skipped.
\<close>

definition spec_button :: "json \<Rightarrow> json option" where
  "spec_button btn =
     (case btn of
        JObj d \<Rightarrow>
          if map_of d ''type'' = Some (JStr ''QUICK_REPLY'') then
            Some (JObj [(''type'', JStr ''QUICK_REPLY''), (''text'', the (map_of d ''text''))])
          else if map_of d ''type'' = Some (JStr ''URL'') then
            Some (JObj [(''type'', JStr ''URL''), (''text'', the (map_of d ''text'')),
                        (''url'', the (map_of d ''url''))])
          else None
      | _ \<Rightarrow> None)"

section \<open>Auxiliary facts\<close>

lemma and_then_Inr [simp]: "and_then (Inr x) f = f x"
  by (simp add: and_then_def)

lemma and_then_Inl [simp]: "and_then (Inl e) f = Inl e"
  by (simp add: and_then_def)

lemma py_eq_JStr [simp]: "py_eq v (JStr s) = (v = JStr s)"
  by (cases v) auto

lemma dict_getitem_Some [simp]: "map_of d k = Some v \<Longrightarrow> dict_getitem d k = Inr v"
  by (simp add: dict_getitem_def)

lemma dict_get_Some [simp]: "map_of d k = Some v \<Longrightarrow> dict_get d k = v"
  by (simp add: dict_get_def)

lemma dict_get_None [simp]: "map_of d k = None \<Longrightarrow> dict_get d k = JNull"
  by (simp add: dict_get_def)

lemma filter_err_total:
  "(\<And>x. x \<in> set xs \<Longrightarrow> p x = Inr (q x)) \<Longrightarrow> filter_err p xs = Inr (filter q xs)"
  by (induction xs) auto

lemma map_err_total:
  "(\<And>x. x \<in> set xs \<Longrightarrow> f x = Inr (g x)) \<Longrightarrow> map_err f xs = Inr (map g xs)"
  by (induction xs) auto

lemma dict_get_eq_JStr: "dict_get d k = JStr s \<longleftrightarrow> map_of d k = Some (JStr s)"
  by (simp add: dict_get_def split: option.splits)

lemma filter_by_string:
  assumes "map_of arguments key = Some (JStr S)" and "S \<noteq> []"
  shows "filter_by arguments key (JList (map JObj ds)) =
           Inr (JList (map JObj (filter (\<lambda>d. map_of d key = Some (JStr S)) ds)))"
proof -
  have "filter_err (\<lambda>t. and_then (py_get t key) (\<lambda>v.
                         and_then (dict_getitem arguments key) (\<lambda>a. Inr (py_eq v a))))
          (map JObj ds)
        = Inr (filter (\<lambda>t. py_get t key = Inr (JStr S)) (map JObj ds))"
    using assms by (intro filter_err_total) (auto simp: py_get_def)
  moreover have "filter (\<lambda>t. py_get t key = Inr (JStr S)) (map JObj ds)
        = map JObj (filter (\<lambda>d. map_of d key = Some (JStr S)) ds)"
    by (simp add: filter_map comp_def py_get_def dict_get_eq_JStr)
  ultimately show ?thesis
    using assms by (simp add: filter_by_def py_iter_def)
qed

lemma filter_by_absent:
  "map_of arguments key = None \<Longrightarrow> filter_by arguments key templates = Inr templates"
  by (simp add: filter_by_def)

lemma parameter_component_list:
  assumes "map_of arguments key = Some (JList xs) \<or> (map_of arguments key = None \<and> xs = [])"
  shows "parameter_component arguments key ty =
           Inr (if xs = [] then []
                else [JObj [(''type'', JStr ty),
                            (''parameters'',
                               JList (map (\<lambda>p. JObj [(''type'', JStr ''text''), (''text'', p)]) xs))]])"
  using assms by (auto simp: parameter_component_def text_parameters_def py_iter_def)

lemma button_entries_valid:
  "valid_button btn \<Longrightarrow>
   button_entries btn = Inr (case spec_button btn of None \<Rightarrow> [] | Some b \<Rightarrow> [b])"
  by (auto simp: valid_button_def spec_button_def button_entries_def py_getitem_def
      split: json.splits option.splits if_splits)

lemma concat_spec_button:
  "concat (map (\<lambda>btn. case spec_button btn of None \<Rightarrow> [] | Some b \<Rightarrow> [b]) btns)
     = List.map_filter spec_button btns"
  by (induction btns) (auto split: option.splits)

lemma button_component_valid:
  assumes "map_of arguments ''buttons'' = Some (JList btns) \<or>
           (map_of arguments ''buttons'' = None \<and> btns = [])"
      and "list_all valid_button btns"
  shows "button_component arguments =
           Inr (if btns = [] then []
                else [JObj [(''type'', JStr ''BUTTONS''),
                            (''buttons'', JList (List.map_filter spec_button btns))]])"
proof -
  have "map_err button_entries btns =
          Inr (map (\<lambda>btn. case spec_button btn of None \<Rightarrow> [] | Some b \<Rightarrow> [b]) btns)"
    using assms(2) by (intro map_err_total) (simp add: list_all_iff button_entries_valid)
  then show ?thesis
    using assms(1)
    by (auto simp: button_component_def py_iter_def concat_spec_button)
qed

lemma header_component_eq:
  "header_component arguments =
     Inr (if py_truthy (dict_get arguments ''header_text'')
          then [JObj [(''type'', JStr ''HEADER''), (''format'', JStr ''TEXT''),
                      (''text'', dict_get arguments ''header_text'')]]
          else [])"
  by (cases "map_of arguments ''header_text''") (simp_all add: header_component_def)

lemma footer_component_eq:
  "footer_component arguments =
     Inr (if py_truthy (dict_get arguments ''footer_text'')
          then [JObj [(''type'', JStr ''FOOTER''), (''text'', dict_get arguments ''footer_text'')]]
          else [])"
  by (cases "map_of arguments ''footer_text''") (simp_all add: footer_component_def)

lemma body_component_eq:
  assumes "map_of arguments ''body_text'' = Some bt"
      and "map_of arguments ''body_examples'' = Some ex"
  shows "body_component arguments =
           Inr [JObj [(''type'', JStr ''BODY''), (''text'', bt),
                      (''example'', JObj [(''body_text'', JList [ex])])]]"
  using assms by (simp add: body_component_def)

lemma create_components_valid:
  assumes "map_of arguments ''body_text'' = Some bt"
      and "map_of arguments ''body_examples'' = Some ex"
      and "map_of arguments ''buttons'' = Some (JList btns) \<or>
           (map_of arguments ''buttons'' = None \<and> btns = [])"
      and "list_all valid_button btns"
  shows "create_components arguments =
           Inr ((if py_truthy (dict_get arguments ''header_text'')
                 then [JObj [(''type'', JStr ''HEADER''), (''format'', JStr ''TEXT''),
                             (''text'', dict_get arguments ''header_text'')]]
                 else [])
                @ [JObj [(''type'', JStr ''BODY''), (''text'', bt),
                         (''example'', JObj [(''body_text'', JList [ex])])]]
                @ (if py_truthy (dict_get arguments ''footer_text'')
                   then [JObj [(''type'', JStr ''FOOTER''),
                               (''text'', dict_get arguments ''footer_text'')]]
                   else [])
                @ (if btns = [] then []
                   else [JObj [(''type'', JStr ''BUTTONS''),
                               (''buttons'', JList (List.map_filter spec_button btns))]]))"
  unfolding create_components_def
  by (simp only: header_component_eq footer_component_eq
      body_component_eq [OF assms(1,2)] button_component_valid [OF assms(3,4)] and_then_Inr)

lemma create_components_map_of:
  "map_of arguments' = map_of arguments \<Longrightarrow>
   create_components arguments' = create_components arguments"
  by (simp add: create_components_def header_component_def body_component_def
      footer_component_def button_component_def dict_get_def dict_getitem_def)

lemma create_template_never_raises:
  "\<exists>out. fst (call_tool cfg http ''create_template'' arguments) = Inr out"
  by (simp add: call_tool_def create_template_tool_def Let_def split: sum.splits)

section \<open>The remote API client\<close>

text \<open>
  C1. The claim: the DELETE request of \<^verbatim>\<open>delete_template\<close> carries
  \<^verbatim>\<open>name=template_name\<close> as a query parameter. The dispatcher hands
  \<^verbatim>\<open>{"name": template_name}\<close> to \<^verbatim>\<open>make_request\<close>, whose DELETE branch calls
  \<^verbatim>\<open>client.delete(url, headers=headers)\<close> and drops it: for the template name
  \<^verbatim>\<open>promo_2024\<close> the request that leaves has no query parameters and no body.
\<close>

theorem delete_template_request_has_no_name:
  "snd (call_tool cfg http ''delete_template'' [(''template_name'', JStr ''promo_2024'')]) =
     [\<lparr>http_method = ''DELETE'',
       url = [Lit BASE_URL, Lit ''/'', Lit (WABA_ID cfg @ ''/message_templates'')],
       headers = [(''Authorization'', ''Bearer '' @ META_ACCESS_TOKEN cfg),
                  (''Content-Type'', ''application/json'')],
       params = None,
       json_body = None\<rparr>]"
  by (simp add: call_tool_def delete_template_tool_def
      before_request_def on_response_def make_request_def Let_def)


section \<open>The message payload builder\<close>

text \<open>
  C7. For a \<^verbatim>\<open>send_text_message\<close> call with recipient \<open>t\<close> and text \<open>m\<close>, exactly one
  request leaves, a POST on \<^verbatim>\<open>{PHONE_NUMBER_ID}/messages\<close>, and its JSON body is
  \<^verbatim>\<open>{messaging_product: "whatsapp", recipient_type: "individual", to: t, type: "text",
  text: {body: m}}\<close>.
\<close>

theorem send_text_message_body:
  assumes "map_of arguments ''to'' = Some t"
      and "map_of arguments ''message'' = Some m"
  shows "snd (call_tool cfg http ''send_text_message'' arguments) =
           [\<lparr>http_method = ''POST'',
             url = [Lit BASE_URL, Lit ''/'', Lit (PHONE_NUMBER_ID cfg @ ''/messages'')],
             headers = [(''Authorization'', ''Bearer '' @ META_ACCESS_TOKEN cfg),
                        (''Content-Type'', ''application/json'')],
             params = None,
             json_body = Some [(''messaging_product'', JStr ''whatsapp''),
                               (''recipient_type'', JStr ''individual''),
                               (''to'', t),
                               (''type'', JStr ''text''),
                               (''text'', JObj [(''body'', m)])]\<rparr>]"
  using assms
  by (simp add: call_tool_def send_text_message_tool_def send_text_payload_def
      before_request_def on_response_def make_request_def Let_def)

text \<open>The scenario of the specification: \<^verbatim>\<open>to="56912345678"\<close>, \<^verbatim>\<open>message="Hi"\<close>.\<close>

theorem send_text_message_body_witness:
  "map_of [(''to'', JStr ''56912345678''), (''message'', JStr ''Hi'')] ''to''
     = Some (JStr ''56912345678'') \<and>
   map_of [(''to'', JStr ''56912345678''), (''message'', JStr ''Hi'')] ''message''
     = Some (JStr ''Hi'') \<and>
   map json_body
     (snd (call_tool \<lparr>META_ACCESS_TOKEN = ''token'', WABA_ID = ''1001'', PHONE_NUMBER_ID = ''2002''\<rparr>
             (\<lambda>rq. Inr [(''messages'', JList [JObj [(''id'', JStr ''wamid.1'')]])])
             ''send_text_message''
             [(''to'', JStr ''56912345678''), (''message'', JStr ''Hi'')])) =
     [Some [(''messaging_product'', JStr ''whatsapp''),
            (''recipient_type'', JStr ''individual''),
            (''to'', JStr ''56912345678''),
            (''type'', JStr ''text''),
            (''text'', JObj [(''body'', JStr ''Hi'')])]]"
proof -
  have a: "map_of [(''to'', JStr ''56912345678''), (''message'', JStr ''Hi'')] ''to''
             = Some (JStr ''56912345678'')"
    by simp
  have b: "map_of [(''to'', JStr ''56912345678''), (''message'', JStr ''Hi'')] ''message''
             = Some (JStr ''Hi'')"
    by simp
  show ?thesis
    using a b send_text_message_body [OF a b] by simp
qed

text \<open>
  C6. For a \<^verbatim>\<open>send_template_message\<close> call whose \<^verbatim>\<open>header_parameters\<close> and
  \<^verbatim>\<open>body_parameters\<close> are lists \<open>hs\<close> and \<open>bs\<close> (an argument that is not given counts as
  the empty list), the components of the payload that is sent are: a \<^verbatim>\<open>header\<close> component
  with one \<^verbatim>\<open>{type: text, text: p}\<close> for each \<open>p\<close> of \<open>hs\<close>, in order, exactly when
  \<open>hs\<close> is not empty; then a \<^verbatim>\<open>body\<close> component built the same way from \<open>bs\<close>, exactly
  when \<open>bs\<close> is not empty. With both lists empty the components are the empty list.
\<close>

theorem send_template_message_components:
  assumes "map_of arguments ''header_parameters'' = Some (JList hs) \<or>
           (map_of arguments ''header_parameters'' = None \<and> hs = [])"
      and "map_of arguments ''body_parameters'' = Some (JList bs) \<or>
           (map_of arguments ''body_parameters'' = None \<and> bs = [])"
      and "map_of arguments ''to'' = Some t"
      and "map_of arguments ''template_name'' = Some n"
  shows "map json_body (snd (call_tool cfg http ''send_template_message'' arguments)) =
           [Some [(''messaging_product'', JStr ''whatsapp''),
                  (''recipient_type'', JStr ''individual''),
                  (''to'', t),
                  (''type'', JStr ''template''),
                  (''template'',
                     JObj [(''name'', n),
                           (''language'',
                              JObj [(''code'',
                                     dict_get_default arguments ''language'' (JStr ''es_CL''))]),
                           (''components'',
                              JList
                                ((if hs = [] then []
                                  else [JObj [(''type'', JStr ''header''),
                                              (''parameters'',
                                                 JList (map (\<lambda>p. JObj [(''type'', JStr ''text''),
                                                                        (''text'', p)]) hs))]])
                                 @ (if bs = [] then []
                                    else [JObj [(''type'', JStr ''body''),
                                                (''parameters'',
                                                   JList (map (\<lambda>p. JObj [(''type'', JStr ''text''),
                                                                          (''text'', p)]) bs))]])))])]]"
proof -
  have c: "send_components arguments =
             Inr ((if hs = [] then []
                   else [JObj [(''type'', JStr ''header''),
                               (''parameters'',
                                  JList (map (\<lambda>p. JObj [(''type'', JStr ''text''),
                                                         (''text'', p)]) hs))]])
                  @ (if bs = [] then []
                     else [JObj [(''type'', JStr ''body''),
                                 (''parameters'',
                                    JList (map (\<lambda>p. JObj [(''type'', JStr ''text''),
                                                           (''text'', p)]) bs))]]))"
    unfolding send_components_def
    by (simp only: parameter_component_list [OF assms(1)] parameter_component_list [OF assms(2)]
        and_then_Inr)
  show ?thesis
    using assms(3,4)
    by (simp only: call_tool_def send_template_message_tool_def send_template_payload_def c)
       (simp add: before_request_def on_response_def make_request_def Let_def)
qed

theorem send_template_message_components_witness:
  "(map_of [(''to'', JStr ''56912345678''), (''template_name'', JStr ''welcome_msg''),
            (''body_parameters'', JList [JStr ''Ana'', JStr ''42''])] ''header_parameters'' = None \<and>
    map_of [(''to'', JStr ''56912345678''), (''template_name'', JStr ''welcome_msg''),
            (''body_parameters'', JList [JStr ''Ana'', JStr ''42''])] ''body_parameters''
      = Some (JList [JStr ''Ana'', JStr ''42'']) \<and>
    map_of [(''to'', JStr ''56912345678''), (''template_name'', JStr ''welcome_msg''),
            (''body_parameters'', JList [JStr ''Ana'', JStr ''42''])] ''to''
      = Some (JStr ''56912345678'') \<and>
    map_of [(''to'', JStr ''56912345678''), (''template_name'', JStr ''welcome_msg''),
            (''body_parameters'', JList [JStr ''Ana'', JStr ''42''])] ''template_name''
      = Some (JStr ''welcome_msg'')) \<and>
   map json_body
     (snd (call_tool \<lparr>META_ACCESS_TOKEN = ''token'', WABA_ID = ''1001'', PHONE_NUMBER_ID = ''2002''\<rparr>
             (\<lambda>rq. Inl TransportError)
             ''send_template_message''
             [(''to'', JStr ''56912345678''), (''template_name'', JStr ''welcome_msg''),
              (''body_parameters'', JList [JStr ''Ana'', JStr ''42''])])) =
     [Some [(''messaging_product'', JStr ''whatsapp''),
            (''recipient_type'', JStr ''individual''),
            (''to'', JStr ''56912345678''),
            (''type'', JStr ''template''),
            (''template'',
               JObj [(''name'', JStr ''welcome_msg''),
                     (''language'', JObj [(''code'', JStr ''es_CL'')]),
                     (''components'',
                        JList [JObj [(''type'', JStr ''body''),
                                     (''parameters'',
                                        JList [JObj [(''type'', JStr ''text''),
                                                     (''text'', JStr ''Ana'')],
                                               JObj [(''type'', JStr ''text''),
                                                     (''text'', JStr ''42'')]])]])])]]"
proof -
  let ?a = "[(''to'', JStr ''56912345678''), (''template_name'', JStr ''welcome_msg''),
             (''body_parameters'', JList [JStr ''Ana'', JStr ''42''])]"
  have h1: "map_of ?a ''header_parameters'' = Some (JList []) \<or>
            (map_of ?a ''header_parameters'' = None \<and> ([] :: json list) = [])" by simp
  have h2: "map_of ?a ''body_parameters'' = Some (JList [JStr ''Ana'', JStr ''42'']) \<or>
            (map_of ?a ''body_parameters'' = None \<and> [JStr ''Ana'', JStr ''42''] = [])" by simp
  have h3: "map_of ?a ''to'' = Some (JStr ''56912345678'')" by simp
  have h4: "map_of ?a ''template_name'' = Some (JStr ''welcome_msg'')" by simp
  show ?thesis
    using h3 h4 send_template_message_components [OF h1 h2 h3 h4]
    by (simp add: dict_get_default_def)
qed

section \<open>The dispatcher\<close>

text \<open>
  C9. For a tool name that is not in the catalog of nine operations, whatever the arguments,
  the dispatcher returns one text block, \<^verbatim>\<open>Unknown tool: \<close> followed by the name; it
  raises nothing and sends no request.
\<close>

theorem call_tool_unknown:
  assumes "name \<notin> set (map tool_name list_tools)"
  shows "call_tool cfg http name arguments =
           (Inr [TextContent ''text'' [Lit ''Unknown tool: '', Lit name]], [])"
  using assms by (simp add: call_tool_def list_tools_def)

theorem call_tool_unknown_witness:
  "''foo'' \<notin> set (map tool_name list_tools) \<and>
   call_tool \<lparr>META_ACCESS_TOKEN = ''token'', WABA_ID = ''1001'', PHONE_NUMBER_ID = ''2002''\<rparr>
     (\<lambda>rq. Inl TransportError) ''foo'' [(''x'', JInt 1)] =
     (Inr [TextContent ''text'' [Lit ''Unknown tool: '', Lit ''foo'']], [])"
proof -
  have h: "''foo'' \<notin> set (map tool_name list_tools)"
    by (simp add: list_tools_def)
  show ?thesis
    using h call_tool_unknown [OF h] by simp
qed

section \<open>The result formatter\<close>






section \<open>The template component builder\<close>

text \<open>
  C3, as amended. For arguments that hold \<^verbatim>\<open>body_text\<close> and \<^verbatim>\<open>body_examples\<close> and
  whose \<^verbatim>\<open>buttons\<close>, when given, are a list of convertible buttons, the components are, in
  this order: HEADER exactly when \<^verbatim>\<open>header_text\<close> is given and truthy (a non-empty
  string), BODY always, FOOTER exactly when \<^verbatim>\<open>footer_text\<close> is given and truthy, BUTTONS
  exactly when the list of buttons is not empty. The components depend on the arguments
  through lookups only, so the order of the keys does not matter.
\<close>

theorem create_components_fixed_order:
  assumes "map_of arguments ''body_text'' = Some bt"
      and "map_of arguments ''body_examples'' = Some ex"
      and "map_of arguments ''buttons'' = Some (JList btns) \<or>
           (map_of arguments ''buttons'' = None \<and> btns = [])"
      and "list_all valid_button btns"
  shows "create_components arguments =
           Inr ((if py_truthy (dict_get arguments ''header_text'')
                 then [JObj [(''type'', JStr ''HEADER''), (''format'', JStr ''TEXT''),
                             (''text'', dict_get arguments ''header_text'')]]
                 else [])
                @ [JObj [(''type'', JStr ''BODY''), (''text'', bt),
                         (''example'', JObj [(''body_text'', JList [ex])])]]
                @ (if py_truthy (dict_get arguments ''footer_text'')
                   then [JObj [(''type'', JStr ''FOOTER''),
                               (''text'', dict_get arguments ''footer_text'')]]
                   else [])
                @ (if btns = [] then []
                   else [JObj [(''type'', JStr ''BUTTONS''),
                               (''buttons'', JList (List.map_filter spec_button btns))]])) \<and>
         (\<forall>arguments'. map_of arguments' = map_of arguments \<longrightarrow>
            create_components arguments' = create_components arguments)"
  using create_components_valid [OF assms] create_components_map_of by blast

theorem create_components_fixed_order_witness:
  "map_of [(''buttons'', JList [JObj [(''type'', JStr ''QUICK_REPLY''), (''text'', JStr ''Yes'')]]),
           (''footer_text'', JStr ''Bye''), (''header_text'', JStr ''Hi''),
           (''body_examples'', JList [JStr ''Ana'']), (''body_text'', JStr ''Hello {{1}}'')]
     ''body_text'' = Some (JStr ''Hello {{1}}'') \<and>
   map_of [(''buttons'', JList [JObj [(''type'', JStr ''QUICK_REPLY''), (''text'', JStr ''Yes'')]]),
           (''footer_text'', JStr ''Bye''), (''header_text'', JStr ''Hi''),
           (''body_examples'', JList [JStr ''Ana'']), (''body_text'', JStr ''Hello {{1}}'')]
     ''body_examples'' = Some (JList [JStr ''Ana'']) \<and>
   map_of [(''buttons'', JList [JObj [(''type'', JStr ''QUICK_REPLY''), (''text'', JStr ''Yes'')]]),
           (''footer_text'', JStr ''Bye''), (''header_text'', JStr ''Hi''),
           (''body_examples'', JList [JStr ''Ana'']), (''body_text'', JStr ''Hello {{1}}'')]
     ''buttons'' = Some (JList [JObj [(''type'', JStr ''QUICK_REPLY''), (''text'', JStr ''Yes'')]]) \<and>
   list_all valid_button [JObj [(''type'', JStr ''QUICK_REPLY''), (''text'', JStr ''Yes'')]] \<and>
   create_components
     [(''buttons'', JList [JObj [(''type'', JStr ''QUICK_REPLY''), (''text'', JStr ''Yes'')]]),
      (''footer_text'', JStr ''Bye''), (''header_text'', JStr ''Hi''),
      (''body_examples'', JList [JStr ''Ana'']), (''body_text'', JStr ''Hello {{1}}'')] =
     Inr [JObj [(''type'', JStr ''HEADER''), (''format'', JStr ''TEXT''), (''text'', JStr ''Hi'')],
          JObj [(''type'', JStr ''BODY''), (''text'', JStr ''Hello {{1}}''),
                (''example'', JObj [(''body_text'', JList [JList [JStr ''Ana'']])])],
          JObj [(''type'', JStr ''FOOTER''), (''text'', JStr ''Bye'')],
          JObj [(''type'', JStr ''BUTTONS''),
                (''buttons'', JList [JObj [(''type'', JStr ''QUICK_REPLY''),
                                          (''text'', JStr ''Yes'')]])]] \<and>
   map_of [(''header_text'', JStr ''Hi''), (''body_text'', JStr ''Hello {{1}}''),
           (''body_examples'', JList [JStr ''Ana'']), (''footer_text'', JStr ''Bye''),
           (''buttons'', JList [JObj [(''type'', JStr ''QUICK_REPLY''), (''text'', JStr ''Yes'')]])] =
   map_of [(''buttons'', JList [JObj [(''type'', JStr ''QUICK_REPLY''), (''text'', JStr ''Yes'')]]),
           (''footer_text'', JStr ''Bye''), (''header_text'', JStr ''Hi''),
           (''body_examples'', JList [JStr ''Ana'']), (''body_text'', JStr ''Hello {{1}}'')] \<and>
   create_components
     [(''header_text'', JStr ''Hi''), (''body_text'', JStr ''Hello {{1}}''),
      (''body_examples'', JList [JStr ''Ana'']), (''footer_text'', JStr ''Bye''),
      (''buttons'', JList [JObj [(''type'', JStr ''QUICK_REPLY''), (''text'', JStr ''Yes'')]])] =
   create_components
     [(''buttons'', JList [JObj [(''type'', JStr ''QUICK_REPLY''), (''text'', JStr ''Yes'')]]),
      (''footer_text'', JStr ''Bye''), (''header_text'', JStr ''Hi''),
      (''body_examples'', JList [JStr ''Ana'']), (''body_text'', JStr ''Hello {{1}}'')]"
proof -
  let ?btns = "[JObj [(''type'', JStr ''QUICK_REPLY''), (''text'', JStr ''Yes'')]]"
  let ?a = "[(''buttons'', JList ?btns),
             (''footer_text'', JStr ''Bye''), (''header_text'', JStr ''Hi''),
             (''body_examples'', JList [JStr ''Ana'']), (''body_text'', JStr ''Hello {{1}}'')]"
  let ?b = "[(''header_text'', JStr ''Hi''), (''body_text'', JStr ''Hello {{1}}''),
             (''body_examples'', JList [JStr ''Ana'']), (''footer_text'', JStr ''Bye''),
             (''buttons'', JList ?btns)]"
  have h1: "map_of ?a ''body_text'' = Some (JStr ''Hello {{1}}'')" by simp
  have h2: "map_of ?a ''body_examples'' = Some (JList [JStr ''Ana''])" by simp
  have h3: "map_of ?a ''buttons'' = Some (JList ?btns) \<or>
            (map_of ?a ''buttons'' = None \<and> ?btns = [])" by simp
  have h4: "list_all valid_button ?btns" by (simp add: valid_button_def)
  have h5: "map_of ?b = map_of ?a" by (rule ext) simp
  note t = create_components_fixed_order [OF h1 h2 h3 h4]
  have c: "create_components ?b = create_components ?a"
    using t h5 by blast
  have d: "create_components ?a =
     Inr [JObj [(''type'', JStr ''HEADER''), (''format'', JStr ''TEXT''), (''text'', JStr ''Hi'')],
          JObj [(''type'', JStr ''BODY''), (''text'', JStr ''Hello {{1}}''),
                (''example'', JObj [(''body_text'', JList [JList [JStr ''Ana'']])])],
          JObj [(''type'', JStr ''FOOTER''), (''text'', JStr ''Bye'')],
          JObj [(''type'', JStr ''BUTTONS''),
                (''buttons'', JList [JObj [(''type'', JStr ''QUICK_REPLY''),
                                          (''text'', JStr ''Yes'')]])]]"
    using t by (simp add: spec_button_def)
  show ?thesis
    using h1 h2 h4 h5 c d by simp
qed

text \<open>
  The claim as stated has HEADER present whenever \<^verbatim>\<open>header_text\<close> is given. Line 293
  tests the truth value of the argument: given as the empty string, it adds no HEADER.
\<close>

theorem create_components_empty_header_counterexample:
  "map_of [(''name'', JStr ''welcome_msg''), (''category'', JStr ''UTILITY''),
           (''header_text'', JStr ''''), (''body_text'', JStr ''Hello {{1}}''),
           (''body_examples'', JList [JStr ''Ana''])] ''header_text'' = Some (JStr '''') \<and>
   create_components
     [(''name'', JStr ''welcome_msg''), (''category'', JStr ''UTILITY''),
      (''header_text'', JStr ''''), (''body_text'', JStr ''Hello {{1}}''),
      (''body_examples'', JList [JStr ''Ana''])] =
     Inr [JObj [(''type'', JStr ''BODY''), (''text'', JStr ''Hello {{1}}''),
                (''example'', JObj [(''body_text'', JList [JList [JStr ''Ana'']])])]]"
  by (simp add: create_components_def header_component_def body_component_def
      footer_component_def button_component_def)

text \<open>
  C4. For every value \<open>E\<close> passed as \<^verbatim>\<open>body_examples\<close>, the BODY component is
  \<^verbatim>\<open>{type: BODY, text: body_text, example: {body_text: [E]}}\<close>, and reading
  \<^verbatim>\<open>example["body_text"][0]\<close> of it gives \<open>E\<close> back.
\<close>

theorem body_example_wrapped:
  assumes "map_of arguments ''body_text'' = Some bt"
      and "map_of arguments ''body_examples'' = Some E"
  shows "body_component arguments =
           Inr [JObj [(''type'', JStr ''BODY''), (''text'', bt),
                      (''example'', JObj [(''body_text'', JList [E])])]] \<and>
         and_then (body_component arguments) (\<lambda>cs.
         and_then (py_index0 (JList cs)) (\<lambda>body.
         and_then (py_getitem body ''example'') (\<lambda>example.
         and_then (py_getitem example ''body_text'') py_index0))) = Inr E"
  using assms by (simp add: body_component_def py_index0_def py_getitem_def)

text \<open>
  The scenario of the specification: \<^verbatim>\<open>name="welcome_msg"\<close>, \<^verbatim>\<open>category="UTILITY"\<close>,
  \<^verbatim>\<open>body_text="Hello {{1}}"\<close>, \<^verbatim>\<open>body_examples=["Ana"]\<close>.
\<close>

theorem body_example_wrapped_witness:
  "map_of [(''name'', JStr ''welcome_msg''), (''category'', JStr ''UTILITY''),
           (''body_text'', JStr ''Hello {{1}}''), (''body_examples'', JList [JStr ''Ana''])]
     ''body_text'' = Some (JStr ''Hello {{1}}'') \<and>
   map_of [(''name'', JStr ''welcome_msg''), (''category'', JStr ''UTILITY''),
           (''body_text'', JStr ''Hello {{1}}''), (''body_examples'', JList [JStr ''Ana''])]
     ''body_examples'' = Some (JList [JStr ''Ana'']) \<and>
   body_component
     [(''name'', JStr ''welcome_msg''), (''category'', JStr ''UTILITY''),
      (''body_text'', JStr ''Hello {{1}}''), (''body_examples'', JList [JStr ''Ana''])] =
     Inr [JObj [(''type'', JStr ''BODY''), (''text'', JStr ''Hello {{1}}''),
                (''example'', JObj [(''body_text'', JList [JList [JStr ''Ana'']])])]] \<and>
   create_components
     [(''name'', JStr ''welcome_msg''), (''category'', JStr ''UTILITY''),
      (''body_text'', JStr ''Hello {{1}}''), (''body_examples'', JList [JStr ''Ana''])] =
     Inr [JObj [(''type'', JStr ''BODY''), (''text'', JStr ''Hello {{1}}''),
                (''example'', JObj [(''body_text'', JList [JList [JStr ''Ana'']])])]]"
proof -
  let ?a = "[(''name'', JStr ''welcome_msg''), (''category'', JStr ''UTILITY''),
             (''body_text'', JStr ''Hello {{1}}''), (''body_examples'', JList [JStr ''Ana''])]"
  have h1: "map_of ?a ''body_text'' = Some (JStr ''Hello {{1}}'')" by simp
  have h2: "map_of ?a ''body_examples'' = Some (JList [JStr ''Ana''])" by simp
  note t = body_example_wrapped [OF h1 h2]
  have "create_components ?a = body_component ?a"
    by (simp add: create_components_def header_component_def
        footer_component_def button_component_def and_then_def split: sum.splits)
  then show ?thesis
    using h1 h2 t by simp
qed



end
